theory Spec2Isabelle
  imports Main "HOL-Library.AList"
begin

section \<open>The service worker \<^verbatim>\<open>sw.js\<close>: failover forwarding of API requests\<close>

text \<open>
  The worker intercepts every fetch of the page. A request whose path starts with
  \<^verbatim>\<open>/api/\<close> is re-issued against an ordered list of backends until one answers;
  every other request goes to the network as it is. The embedding follows the source
  function by function. The platform (network, clock, cache storage) is an explicit
  environment; a thrown exception is the \<open>Inl\<close> of a sum, and a promise that may stay
  unsettled is a value of the type \<open>promise\<close> below.

  Modelling boundary: \<^verbatim>\<open>Headers\<close> and \<^verbatim>\<open>Request\<close> are the values the source hands to
  their constructors; what the browser does with the headers of a request afterwards is
  not part of \<^verbatim>\<open>sw.js\<close> and is not modelled. The constructor of \<^verbatim>\<open>Response\<close> is
  modelled with the two checks by which it throws, since the source calls it inside its
  \<^verbatim>\<open>try\<close> block.
\<close>

subsection \<open>Configuration (lines 4-9)\<close>

definition CACHE_NAME :: string where
  "CACHE_NAME = ''wyerd-crm-v2''"

definition PRIMARY_BACKEND :: string where
  "PRIMARY_BACKEND = ''https://expert-fishstick-7vwj9x9vj6r93wqqp-5173.app.github.dev''"

definition FALLBACK_BACKENDS :: "string list" where
  "FALLBACK_BACKENDS =
     [''https://expert-fishstick-7vwj9x9vj6r93wqqp-5000.app.github.dev'',
      ''https://facilitate-dim-insight-writes.trycloudflare.com'']"

subsection \<open>Strings\<close>

text \<open>\<^verbatim>\<open>s.startsWith(p)\<close> and \<^verbatim>\<open>s.includes(p)\<close>.\<close>

fun startsWith :: "string \<Rightarrow> string \<Rightarrow> bool" where
  "startsWith s [] = True"
| "startsWith [] (p # ps) = False"
| "startsWith (c # s) (p # ps) = (c = p \<and> startsWith s ps)"

fun str_includes :: "string \<Rightarrow> string \<Rightarrow> bool" where
  "str_includes [] p = (p = [])"
| "str_includes (c # s) p = (startsWith (c # s) p \<or> str_includes s p)"

subsection \<open>Data\<close>

text \<open>
  A thrown value or rejection reason. The source only reads \<^verbatim>\<open>error.message\<close>, which may
  be undefined (\<open>None\<close>).
\<close>

record js_error =
  name :: string
  message :: "string option"

text \<open>
  How an awaited promise ends: it never settles, it rejects with a reason, or it
  resolves to a value.
\<close>

datatype 'a promise = Pending | is_Rejected: Rejected (reason: js_error) | Fulfilled 'a

text \<open>
  A \<^verbatim>\<open>Headers\<close> object: an association list from header names to values. The class
  compares names case-insensitively and stores them in lower case, so every operation
  lower-cases the name it is given.
\<close>

type_synonym headers = "(string \<times> string) list"

definition to_lower :: "char \<Rightarrow> char" where
  "to_lower c =
     (case map_of (zip ''ABCDEFGHIJKLMNOPQRSTUVWXYZ'' ''abcdefghijklmnopqrstuvwxyz'') c of
        Some d \<Rightarrow> d
      | None \<Rightarrow> c)"

definition header_name :: "string \<Rightarrow> string" where
  "header_name k = map to_lower k"

definition Headers_set :: "string \<Rightarrow> string \<Rightarrow> headers \<Rightarrow> headers" where
  "Headers_set k v h = AList.update (header_name k) v h"

definition Headers_delete :: "string \<Rightarrow> headers \<Rightarrow> headers" where
  "Headers_delete k h = AList.delete (header_name k) h"

definition Headers_get :: "headers \<Rightarrow> string \<Rightarrow> string option" where
  "Headers_get h k = map_of h (header_name k)"

text \<open>
  What \<^verbatim>\<open>headers.entries()\<close> of a \<^verbatim>\<open>Headers\<close> object iterates: lower-case names, each
  name once.
\<close>

definition Headers_entries_ok :: "headers \<Rightarrow> bool" where
  "Headers_entries_ok h =
     (distinct (map fst h) \<and> list_all (\<lambda>k. header_name k = k) (map fst h))"

text \<open>\<^verbatim>\<open>new URL(request.url)\<close>: the two parts the source reads.\<close>

record url =
  pathname :: string
  search :: string

text \<open>
  The intercepted request. \<open>req_headers\<close> is the sequence \<^verbatim>\<open>request.headers.entries()\<close>
  iterates; \<open>req_text\<close> is the outcome of \<^verbatim>\<open>await request.clone().text()\<close>.
\<close>

record request =
  req_url :: url
  req_method :: string
  req_headers :: headers
  req_text :: "js_error + string"

text \<open>The derived request: the arguments of \<^verbatim>\<open>new Request(fullBackendUrl, {...})\<close>.\<close>

record backend_request =
  br_url :: string
  br_method :: string
  br_headers :: headers
  br_body :: "string option"
  br_credentials :: string
  br_mode :: string

text \<open>
  What \<^verbatim>\<open>fetch\<close> resolves to. \<open>res_text\<close> is how \<^verbatim>\<open>await response.text()\<close> of line 130
  ends. Line 125 clears the abort timer before that read starts, so nothing bounds it:
  a body that never finishes leaves the read \<open>Pending\<close>.
\<close>

record backend_response =
  res_status :: nat
  res_statusText :: string
  res_headers :: headers
  res_text :: "string promise"

datatype json = JString string | JArray "json list" | JObject "(string \<times> json) list"

text \<open>
  A response body is a text; \<open>Stringify v\<close> stands for the text \<^verbatim>\<open>JSON.stringify(v)\<close>.
\<close>

datatype body = Text string | Stringify json

text \<open>The arguments of \<^verbatim>\<open>new Response(body, {status, statusText, headers})\<close>.\<close>

record response =
  status :: nat
  statusText :: string
  headers :: headers
  body :: body

definition body_field :: "body \<Rightarrow> string \<Rightarrow> json option" where
  "body_field b k = (case b of Stringify (JObject fs) \<Rightarrow> map_of fs k | _ \<Rightarrow> None)"

text \<open>
  The environment of one forwarding operation: \<open>fetch i r\<close> is how the call of
  \<^verbatim>\<open>fetch\<close> for candidate number \<open>i\<close> (counted from 0) with the derived request \<open>r\<close>
  settles under the 10 second abort timer: a response, or a rejection (network error,
  abort by the timer, CORS rejection); the timer makes it settle. \<open>constructor_error s\<close>
  is the error \<^verbatim>\<open>new Response\<close> throws for a status \<open>s\<close> it refuses (its message is the
  browser's). \<open>now\<close> is \<^verbatim>\<open>new Date().toISOString()\<close>.
\<close>

record env =
  fetch :: "nat \<Rightarrow> backend_request \<Rightarrow> js_error + backend_response"
  constructor_error :: "nat \<Rightarrow> js_error"
  now :: string

subsection \<open>\<^verbatim>\<open>handleApiRequest\<close> (lines 71-179)\<close>

text \<open>Line 87: the target of an attempt.\<close>

definition fullBackendUrl :: "request \<Rightarrow> string \<Rightarrow> string" where
  "fullBackendUrl request backendUrl =
     backendUrl @ pathname (req_url request) @ search (req_url request)"

text \<open>Lines 91-106: copy the original headers, then adapt \<^verbatim>\<open>Origin\<close>.\<close>

definition requestHeaders :: "request \<Rightarrow> string \<Rightarrow> headers" where
  "requestHeaders request backendUrl =
     (let copied = fold (\<lambda>(key, v). Headers_set key v) (req_headers request) []
      in if str_includes backendUrl ''app.github.dev''
         then Headers_delete ''Origin'' copied
         else Headers_set ''Origin'' ''https://wyerd.net'' copied)"

text \<open>
  Lines 108-114. The body is read only when the method is neither GET nor HEAD; a failed
  read throws inside the \<^verbatim>\<open>try\<close> block.
\<close>

definition backendRequest :: "request \<Rightarrow> string \<Rightarrow> js_error + backend_request" where
  "backendRequest request backendUrl =
     (let build = (\<lambda>b. \<lparr>br_url = fullBackendUrl request backendUrl,
                          br_method = req_method request,
                          br_headers = requestHeaders request backendUrl,
                          br_body = b,
                          br_credentials = ''include'',
                          br_mode = ''cors''\<rparr>)
      in if req_method request \<noteq> ''GET'' \<and> req_method request \<noteq> ''HEAD''
         then (case req_text request of
                 Inl error \<Rightarrow> Inl error
               | Inr t \<Rightarrow> Inr (build (Some t)))
         else Inr (build None))"

text \<open>Lines 131-141: the response handed back when a backend answered.\<close>

definition forwarded :: "backend_response \<Rightarrow> string \<Rightarrow> response" where
  "forwarded r responseBody =
     \<lparr>status = res_status r,
      statusText = res_statusText r,
      headers =
        [(''Content-Type'', ''application/json''),
         (''Access-Control-Allow-Origin'', ''https://wyerd.net''),
         (''Access-Control-Allow-Methods'', ''GET, POST, PUT, DELETE, OPTIONS''),
         (''Access-Control-Allow-Headers'', ''Content-Type, Authorization, X-Requested-With''),
         (''Access-Control-Allow-Credentials'', ''true'')],
      body = Text responseBody\<rparr>"

text \<open>
  \<^verbatim>\<open>new Response(responseBody, {...})\<close> of line 131. The constructor throws a
  \<^verbatim>\<open>RangeError\<close> for a status outside 200-599, and a \<^verbatim>\<open>TypeError\<close> when a body is
  given with a null body status (101, 103, 204, 205, 304). Here the body is the string
  read at line 130, which is never null, even when it is empty. The status text is that
  of a fetched response and is taken to be a reason phrase the constructor accepts.
\<close>

definition null_body_status :: "nat \<Rightarrow> bool" where
  "null_body_status s = (s = 101 \<or> s = 103 \<or> s = 204 \<or> s = 205 \<or> s = 304)"

definition status_accepted :: "nat \<Rightarrow> bool" where
  "status_accepted s = (200 \<le> s \<and> s \<le> 599 \<and> \<not> null_body_status s)"

definition new_Response :: "env \<Rightarrow> backend_response \<Rightarrow> string \<Rightarrow> js_error + response" where
  "new_Response e r responseBody =
     (if status_accepted (res_status r)
      then Inr (forwarded r responseBody)
      else Inl (constructor_error e (res_status r)))"

text \<open>
  The body of the \<^verbatim>\<open>try\<close> block (lines 87-141) for candidate number \<open>i\<close>:
  \<open>Fulfilled\<close> is the \<^verbatim>\<open>return\<close> of line 131, \<open>Rejected\<close> the error the \<^verbatim>\<open>catch\<close> of
  line 143 receives, \<open>Pending\<close> a block that waits for the response body for ever.
\<close>

definition attempt :: "env \<Rightarrow> request \<Rightarrow> nat \<Rightarrow> string \<Rightarrow> response promise" where
  "attempt e request i backendUrl =
     (case backendRequest request backendUrl of
        Inl error \<Rightarrow> Rejected error
      | Inr r \<Rightarrow>
          (case fetch e i r of
             Inl error \<Rightarrow> Rejected error
           | Inr resp \<Rightarrow>
               (case res_text resp of
                  Pending \<Rightarrow> Pending
                | Rejected error \<Rightarrow> Rejected error
                | Fulfilled responseBody \<Rightarrow>
                    (case new_Response e resp responseBody of
                       Inl error \<Rightarrow> Rejected error
                     | Inr answer \<Rightarrow> Fulfilled answer))))"

text \<open>Line 164: \<^verbatim>\<open>lastError?.message || 'Unknown error'\<close>.\<close>

definition lastError_message :: "js_error option \<Rightarrow> string" where
  "lastError_message lastError =
     (case lastError of
        None \<Rightarrow> ''Unknown error''
      | Some error \<Rightarrow>
          (case message error of
             None \<Rightarrow> ''Unknown error''
           | Some m \<Rightarrow> if m = [] then ''Unknown error'' else m))"

text \<open>Lines 160-178: the response when no backend answered.\<close>

definition all_backends_failed :: "string list \<Rightarrow> js_error option \<Rightarrow> string \<Rightarrow> response" where
  "all_backends_failed backendUrls lastError timestamp =
     \<lparr>status = 503,
      statusText = [],
      headers =
        [(''Content-Type'', ''application/json''),
         (''Access-Control-Allow-Origin'', ''*'')],
      body = Stringify (JObject
        [(''error'', JString ''All Backends Failed''),
         (''message'', JString
            ''Unable to connect to any backend server. Check if development server is running.''),
         (''backends'', JArray (map JString backendUrls)),
         (''lastError'', JString (lastError_message lastError)),
         (''solutions'', JArray
            [JString ''Start dev server: npm run dev (port 5173)'',
             JString ''Start backend: node server.js (http://localhost:5000)'',
             JString ''Check CORS configuration'',
             JString ''Verify MongoDB connection'']),
         (''timestamp'', JString timestamp)])\<rparr>"

text \<open>
  What a forwarding operation does: how the promise of \<^verbatim>\<open>handleApiRequest\<close> ends and,
  in order, the targets it attempted (one per iteration of the loop, as line 88 logs
  them).
\<close>

record forwarding =
  returned :: "response promise"
  attempted :: "string list"

text \<open>
  The loop of lines 84-153 from index \<open>i\<close> on; \<open>rest\<close> is \<open>drop i backendUrls\<close>,
  \<open>lastError\<close> the variable of line 81 and \<open>tried\<close> the targets attempted so far.
\<close>

fun try_backends ::
  "env \<Rightarrow> request \<Rightarrow> string list \<Rightarrow> nat \<Rightarrow> string list \<Rightarrow> js_error option \<Rightarrow> string list
     \<Rightarrow> forwarding" where
  "try_backends e request backendUrls i [] lastError tried =
     \<lparr>returned = Fulfilled (all_backends_failed backendUrls lastError (now e)),
      attempted = tried\<rparr>"
| "try_backends e request backendUrls i (backendUrl # rest) lastError tried =
     (case attempt e request i backendUrl of
        Fulfilled r \<Rightarrow>
          \<lparr>returned = Fulfilled r, attempted = tried @ [fullBackendUrl request backendUrl]\<rparr>
      | Pending \<Rightarrow>
          \<lparr>returned = Pending, attempted = tried @ [fullBackendUrl request backendUrl]\<rparr>
      | Rejected error \<Rightarrow>
          try_backends e request backendUrls (Suc i) rest (Some error)
            (tried @ [fullBackendUrl request backendUrl]))"

text \<open>Lines 72-75.\<close>

definition backendUrls :: "string list" where
  "backendUrls = PRIMARY_BACKEND # FALLBACK_BACKENDS"

definition handleApiRequest :: "env \<Rightarrow> request \<Rightarrow> forwarding" where
  "handleApiRequest e request = try_backends e request backendUrls 0 backendUrls None []"

subsection \<open>The fetch listener (lines 42-68)\<close>

text \<open>Lines 52-61: the handler of \<^verbatim>\<open>.catch\<close>. \<^verbatim>\<open>JSON.stringify\<close> leaves out an undefined member.\<close>

definition api_request_failed :: "js_error \<Rightarrow> response" where
  "api_request_failed error =
     \<lparr>status = 500,
      statusText = [],
      headers = [(''Content-Type'', ''application/json'')],
      body = Stringify (JObject
        ((''error'', JString ''API request failed'') #
         (case message error of None \<Rightarrow> [] | Some m \<Rightarrow> [(''message'', JString m)])))\<rparr>"

text \<open>\<^verbatim>\<open>promise.catch(error => new Response(...))\<close>, lines 52-61.\<close>

definition catch_api :: "response promise \<Rightarrow> response promise" where
  "catch_api p =
     (case p of
        Rejected error \<Rightarrow> Fulfilled (api_request_failed error)
      | Fulfilled r \<Rightarrow> Fulfilled r
      | Pending \<Rightarrow> Pending)"

text \<open>
  What the listener does with the event: \<^verbatim>\<open>event.respondWith\<close> of a promise of a
  response, or of the default \<^verbatim>\<open>fetch(event.request)\<close> of the request as it came.
\<close>

datatype responded = Respond "response promise" | DefaultFetch request

text \<open>
  Lines 42-68, with the forwarding routine called at line 51 as the argument \<open>routine\<close>;
  the listener of the source is the one for \<^verbatim>\<open>handleApiRequest\<close>.
\<close>

definition fetch_listener_with :: "(request \<Rightarrow> response promise) \<Rightarrow> request \<Rightarrow> responded" where
  "fetch_listener_with routine request =
     (if startsWith (pathname (req_url request)) ''/api/''
      then Respond (catch_api (routine request))
      else DefaultFetch request)"

definition fetch_listener :: "env \<Rightarrow> request \<Rightarrow> responded" where
  "fetch_listener e request =
     fetch_listener_with (\<lambda>request. returned (handleApiRequest e request)) request"

subsection \<open>The activate listener (lines 23-39)\<close>

text \<open>
  The cache storage: \<open>stored\<close> are the names of the caches it holds, \<open>keys_rejects\<close>
  is the reason if \<^verbatim>\<open>caches.keys()\<close> rejects, and \<open>delete n\<close> is how
  \<^verbatim>\<open>caches.delete(n)\<close> settles (resolving to \<open>True\<close> removes the cache \<open>n\<close>).
\<close>

record cache_storage =
  stored :: "string list"
  keys_rejects :: "js_error option"
  delete :: "string \<Rightarrow> js_error + bool"

definition keys :: "cache_storage \<Rightarrow> js_error + string list" where
  "keys caches = (case keys_rejects caches of Some error \<Rightarrow> Inl error | None \<Rightarrow> Inr (stored caches))"

text \<open>
  What activation does: the deletions it issued, the caches left afterwards, whether
  \<^verbatim>\<open>clients.claim()\<close> was called, and whether the promise given to
  \<^verbatim>\<open>event.waitUntil\<close> was fulfilled.
\<close>

record activation =
  deletions :: "string list"
  remaining :: "string list"
  claimed :: bool
  fulfilled :: bool

text \<open>
  \<^verbatim>\<open>map\<close> calls \<^verbatim>\<open>caches.delete\<close> for every filtered name before anything is awaited;
  \<^verbatim>\<open>Promise.all\<close> is fulfilled when every deletion is, and rejected otherwise; the
  \<^verbatim>\<open>then\<close> of line 35 runs only on fulfilment.
\<close>

definition activate :: "cache_storage \<Rightarrow> activation" where
  "activate caches =
     (case keys caches of
        Inl error \<Rightarrow>
          \<lparr>deletions = [], remaining = stored caches, claimed = False, fulfilled = False\<rparr>
      | Inr cacheNames \<Rightarrow>
          (let old = filter (\<lambda>cacheName. cacheName \<noteq> CACHE_NAME) cacheNames;
               settled = map (delete caches) old;
               left = filter (\<lambda>cacheName. cacheName \<notin> set old
                                \<or> delete caches cacheName \<noteq> Inr True) (stored caches);
               all_fulfilled = list_all (\<lambda>s. \<not> isl s) settled
           in \<lparr>deletions = old, remaining = left,
               claimed = all_fulfilled, fulfilled = all_fulfilled\<rparr>))"

subsection \<open>Concrete inputs\<close>

text \<open>A POST to \<^verbatim>\<open>/api/contacts?page=2\<close> and a GET of an asset.\<close>

definition api_post :: request where
  "api_post =
     \<lparr>req_url = \<lparr>pathname = ''/api/contacts'', search = ''?page=2''\<rparr>,
      req_method = ''POST'',
      req_headers = [(''accept'', ''application/json''), (''origin'', ''https://example.org'')],
      req_text = Inr ''[1]''\<rparr>"

definition asset_get :: request where
  "asset_get =
     \<lparr>req_url = \<lparr>pathname = ''/assets/logo.png'', search = []\<rparr>,
      req_method = ''GET'',
      req_headers = [(''accept'', ''image/png'')],
      req_text = Inr []\<rparr>"

definition failed_to_fetch :: js_error where
  "failed_to_fetch = \<lparr>name = ''TypeError'', message = Some ''Failed to fetch''\<rparr>"

definition aborted :: js_error where
  "aborted = \<lparr>name = ''AbortError'', message = Some ''The user aborted a request.''\<rparr>"

definition no_message :: js_error where
  "no_message = \<lparr>name = ''Error'', message = None\<rparr>"

definition timestamp0 :: string where
  "timestamp0 = ''2025-11-19T00:00:00.000Z''"

text \<open>The preferred backend is unreachable, the second answers 200.\<close>

definition refused :: "nat \<Rightarrow> js_error" where
  "refused s = \<lparr>name = (if s < 200 \<or> 599 < s then ''RangeError'' else ''TypeError''),
                message = Some ''Failed to construct Response''\<rparr>"

definition ok_true :: backend_response where
  "ok_true = \<lparr>res_status = 200, res_statusText = ''OK'',
              res_headers = [(''server'', ''nginx'')], res_text = Fulfilled ''[true]''\<rparr>"

definition second_answers :: env where
  "second_answers =
     \<lparr>fetch = (\<lambda>i r. if i = 1 then Inr ok_true else Inl failed_to_fetch),
      constructor_error = refused,
      now = timestamp0\<rparr>"



text \<open>No backend answers; the last one runs into the timer.\<close>

definition none_answers :: env where
  "none_answers =
     \<lparr>fetch = (\<lambda>i r. if i = 2 then Inl aborted else Inl failed_to_fetch),
      constructor_error = refused,
      now = timestamp0\<rparr>"

text \<open>
  The preferred backend answers 200 but its body cannot be read; the second answers 201.
\<close>

definition body_lost :: backend_response where
  "body_lost = \<lparr>res_status = 200, res_statusText = ''OK'',
                res_headers = [(''server'', ''nginx'')], res_text = Rejected failed_to_fetch\<rparr>"

definition created :: backend_response where
  "created = \<lparr>res_status = 201, res_statusText = ''Created'',
              res_headers = [(''server'', ''nginx'')], res_text = Fulfilled ''[true]''\<rparr>"

definition first_body_unreadable :: env where
  "first_body_unreadable =
     \<lparr>fetch = (\<lambda>i r. if i = 0 then Inr body_lost else Inr created),
      constructor_error = refused,
      now = timestamp0\<rparr>"

text \<open>The preferred backend answers 204 with an empty body; the second answers 200.\<close>

definition no_content :: backend_response where
  "no_content = \<lparr>res_status = 204, res_statusText = ''No Content'',
                 res_headers = [], res_text = Fulfilled []\<rparr>"

definition first_no_content :: env where
  "first_no_content =
     \<lparr>fetch = (\<lambda>i r. if i = 0 then Inr no_content else Inr ok_true),
      constructor_error = refused,
      now = timestamp0\<rparr>"






text \<open>Cache storages: one whose deletion of an old cache is rejected, one without failures.\<close>

definition storage_error :: js_error where
  "storage_error = \<lparr>name = ''UnknownError'', message = Some ''Internal error.''\<rparr>"

definition one_deletion_rejects :: cache_storage where
  "one_deletion_rejects =
     \<lparr>stored = [''wyerd-crm-v1'', ''wyerd-crm-v2'', ''old-assets''],
      keys_rejects = None,
      delete = (\<lambda>n. if n = ''wyerd-crm-v1'' then Inl storage_error else Inr True)\<rparr>"

definition all_deletions_succeed :: cache_storage where
  "all_deletions_succeed =
     \<lparr>stored = [''wyerd-crm-v1'', ''wyerd-crm-v2'', ''old-assets''],
      keys_rejects = None,
      delete = (\<lambda>n. Inr True)\<rparr>"

section \<open>Properties\<close>

subsection \<open>The loop over the candidates\<close>

text \<open>
  Facts about the loop from any index \<open>i\<close> on: the first candidate whose attempt does not
  throw ends it, with the outcome of that attempt; a loop in which every attempt throws
  ends in the 503 response built from the last error; the loop moves past a candidate
  only when its attempt threw; the loop never rejects, and it stays unsettled only
  when the body of an answer never finishes.
\<close>

lemma try_backends_first_settled:
  "N < length rest \<Longrightarrow>
   \<forall>j<N. is_Rejected (attempt e request (i + j) (rest ! j)) \<Longrightarrow>
   \<not> is_Rejected (attempt e request (i + N) (rest ! N)) \<Longrightarrow>
   try_backends e request bs i rest le tried =
     \<lparr>returned = attempt e request (i + N) (rest ! N),
      attempted = tried @ map (fullBackendUrl request) (take (Suc N) rest)\<rparr>"
proof (induction rest arbitrary: N i le tried)
  case Nil
  then show ?case by simp
next
  case (Cons b rest)
  show ?case
  proof (cases N)
    case 0
    with Cons.prems(3) show ?thesis
      by (cases "attempt e request i b") simp_all
  next
    case (Suc M)
    from Cons.prems(2) Suc have "is_Rejected (attempt e request i b)" by force
    then obtain err where err: "attempt e request i b = Rejected err"
      by (cases "attempt e request i b") simp_all
    have a: "M < length rest" using Cons.prems(1) Suc by simp
    have b: "\<forall>j<M. is_Rejected (attempt e request (Suc i + j) (rest ! j))"
      using Cons.prems(2) Suc by force
    have c: "\<not> is_Rejected (attempt e request (Suc i + M) (rest ! M))"
      using Cons.prems(3) Suc by simp
    show ?thesis
      using Cons.IH [OF a b c, of "Some err" "tried @ [fullBackendUrl request b]"] err Suc
      by simp
  qed
qed

lemma try_backends_all_failed:
  "\<forall>j<length rest. is_Rejected (attempt e request (i + j) (rest ! j)) \<Longrightarrow>
   try_backends e request bs i rest le tried =
     \<lparr>returned = Fulfilled (all_backends_failed bs
         (if rest = [] then le
          else Some (reason (attempt e request (i + (length rest - 1)) (last rest)))) (now e)),
      attempted = tried @ map (fullBackendUrl request) rest\<rparr>"
proof (induction rest arbitrary: i le tried)
  case Nil
  then show ?case by simp
next
  case (Cons b rest)
  from Cons.prems have "is_Rejected (attempt e request i b)" by force
  then obtain err where err: "attempt e request i b = Rejected err"
    by (cases "attempt e request i b") simp_all
  have b: "\<forall>j<length rest. is_Rejected (attempt e request (Suc i + j) (rest ! j))"
    using Cons.prems by force
  show ?case
  proof (cases "rest = []")
    case True
    then show ?thesis using err by simp
  next
    case False
    then have eq: "Suc (i + (length rest - Suc 0)) = i + length rest" by (cases rest) auto
    show ?thesis
      using Cons.IH [OF b, of "Some err" "tried @ [fullBackendUrl request b]"] err False
      by (simp add: eq)
  qed
qed


lemma try_backends_never_rejects:
  "\<not> is_Rejected (returned (try_backends e request bs i rest le tried))"
proof (induction rest arbitrary: i le tried)
  case Nil
  then show ?case by simp
next
  case (Cons b rest)
  then show ?case by (cases "attempt e request i b") simp_all
qed



lemma attempt_answered:
  "backendRequest request backendUrl = Inr r \<Longrightarrow> fetch e i r = Inr resp \<Longrightarrow>
   res_text resp = Fulfilled t \<Longrightarrow> status_accepted (res_status resp) \<Longrightarrow>
   attempt e request i backendUrl = Fulfilled (forwarded resp t)"
  by (simp add: attempt_def new_Response_def)




lemma backendUrls_not_empty: "backendUrls \<noteq> []"
  by (simp add: backendUrls_def)

lemma handleApiRequest_first_settled:
  assumes "N < length backendUrls"
    and "\<forall>j<N. is_Rejected (attempt e request j (backendUrls ! j))"
    and "\<not> is_Rejected (attempt e request N (backendUrls ! N))"
  shows "handleApiRequest e request =
      \<lparr>returned = attempt e request N (backendUrls ! N),
       attempted = map (fullBackendUrl request) (take (Suc N) backendUrls)\<rparr>"
  using try_backends_first_settled [of N backendUrls e request 0 backendUrls None "[]"] assms
  by (simp add: handleApiRequest_def)

lemma handleApiRequest_never_rejects:
  "\<not> is_Rejected (returned (handleApiRequest e request))"
  by (simp add: handleApiRequest_def try_backends_never_rejects)

lemma catch_api_settled: "\<not> is_Rejected p \<Longrightarrow> catch_api p = p"
  by (cases p) (simp_all add: catch_api_def)

subsection \<open>Forwarding\<close>

text \<open>
  C1, as the code has it. Let candidate \<open>N\<close> be the first whose attempt does not throw:
  every attempt before it threw, and for \<open>N\<close> the derived request was built,
  \<^verbatim>\<open>fetch\<close> resolved to \<open>resp\<close>, the body of \<open>resp\<close> was read as the text \<open>t\<close>, and the
  status of \<open>resp\<close> is one \<^verbatim>\<open>new Response\<close> takes with a body (200-599 without 204, 205
  and 304). Then the forwarding operation returns a response with the status of \<open>resp\<close>
  and the body \<open>t\<close>, and the targets it attempted are those of the candidates \<open>0\<close> to
  \<open>N\<close> in order: no later candidate is attempted.
\<close>

theorem first_readable_answer_is_returned:
  assumes "N < length backendUrls"
    and "\<forall>j<N. is_Rejected (attempt e request j (backendUrls ! j))"
    and "backendRequest request (backendUrls ! N) = Inr r"
    and "fetch e N r = Inr resp"
    and "res_text resp = Fulfilled t"
    and "status_accepted (res_status resp)"
  shows "returned (handleApiRequest e request) = Fulfilled (forwarded resp t)
       \<and> status (forwarded resp t) = res_status resp
       \<and> body (forwarded resp t) = Text t
       \<and> attempted (handleApiRequest e request)
           = map (fullBackendUrl request) (take (Suc N) backendUrls)"
proof -
  have answered: "attempt e request N (backendUrls ! N) = Fulfilled (forwarded resp t)"
    using assms(3-6) by (rule attempt_answered)
  then have "\<not> is_Rejected (attempt e request N (backendUrls ! N))" by simp
  from handleApiRequest_first_settled [OF assms(1,2) this] answered
  show ?thesis by (simp add: forwarded_def)
qed

theorem first_readable_answer_is_returned_witness:
  "returned (handleApiRequest second_answers api_post) = Fulfilled (forwarded ok_true ''[true]'')
   \<and> status (forwarded ok_true ''[true]'') = 200
   \<and> attempted (handleApiRequest second_answers api_post)
       = [PRIMARY_BACKEND @ ''/api/contacts?page=2'', hd FALLBACK_BACKENDS @ ''/api/contacts?page=2'']"
  using first_readable_answer_is_returned [where N = 1 and e = second_answers
      and request = api_post and r = "projr (backendRequest api_post (backendUrls ! 1))"
      and resp = ok_true and t = "''[true]''"]
  by (simp add: backendUrls_def FALLBACK_BACKENDS_def attempt_def backendRequest_def
      api_post_def second_answers_def fullBackendUrl_def ok_true_def status_accepted_def
      null_body_status_def)

text \<open>
  C1 as stated fails. The preferred backend answers 200, so it is the first candidate
  that yields a response; the body of that answer cannot be read, the \<^verbatim>\<open>catch\<close> of line
  143 takes the error, and the operation attempts the second candidate and returns its
  201.
\<close>

theorem unreadable_first_answer_is_skipped:
  "fetch first_body_unreadable 0 (projr (backendRequest api_post (backendUrls ! 0)))
     = Inr body_lost
   \<and> res_status body_lost = 200
   \<and> returned (handleApiRequest first_body_unreadable api_post)
       = Fulfilled (forwarded created ''[true]'')
   \<and> status (forwarded created ''[true]'') = 201
   \<and> attempted (handleApiRequest first_body_unreadable api_post)
       = [PRIMARY_BACKEND @ ''/api/contacts?page=2'', hd FALLBACK_BACKENDS @ ''/api/contacts?page=2'']"
  by (simp add: handleApiRequest_def backendUrls_def FALLBACK_BACKENDS_def attempt_def
      backendRequest_def api_post_def first_body_unreadable_def fullBackendUrl_def
      body_lost_def created_def new_Response_def status_accepted_def null_body_status_def
      forwarded_def)

text \<open>
  The same happens when the preferred backend answers 204 with an empty body:
  \<^verbatim>\<open>new Response\<close> of line 131 throws inside the \<^verbatim>\<open>try\<close> block, and the operation
  attempts the second candidate and returns its 200.
\<close>

lemma no_content_answer_is_skipped:
  "fetch first_no_content 0 (projr (backendRequest api_post (backendUrls ! 0)))
     = Inr no_content
   \<and> returned (handleApiRequest first_no_content api_post)
       = Fulfilled (forwarded ok_true ''[true]'')
   \<and> status (forwarded ok_true ''[true]'') = 200
   \<and> length (attempted (handleApiRequest first_no_content api_post)) = 2"
  by (simp add: handleApiRequest_def backendUrls_def FALLBACK_BACKENDS_def attempt_def
      backendRequest_def api_post_def first_no_content_def
      no_content_def ok_true_def new_Response_def status_accepted_def null_body_status_def
      forwarded_def)






text \<open>
  C3. When the attempt of every candidate throws, and \<open>error\<close> is what the attempt of
  the last candidate threw, the returned response has status 503, the headers
  \<^verbatim>\<open>Content-Type: application/json\<close> and \<^verbatim>\<open>Access-Control-Allow-Origin: *\<close>, and a JSON
  body with the fixed error label and message, \<^verbatim>\<open>backends\<close> equal to the configured list
  in its order, \<^verbatim>\<open>lastError\<close> taken from \<open>error\<close> alone (its message whenever it has a
  non-empty one), the four solutions and the timestamp. The response is a function of
  the configured list, the last error and the clock: earlier errors leave no trace.
\<close>

theorem all_failed_is_503:
  assumes "\<forall>j<length backendUrls. is_Rejected (attempt e request j (backendUrls ! j))"
    and "attempt e request (length backendUrls - 1) (last backendUrls) = Rejected error"
  shows "returned (handleApiRequest e request)
           = Fulfilled (all_backends_failed backendUrls (Some error) (now e))
       \<and> (let R = all_backends_failed backendUrls (Some error) (now e) in
           status R = 503
         \<and> headers R = [(''Content-Type'', ''application/json''),
                         (''Access-Control-Allow-Origin'', ''*'')]
         \<and> body_field (body R) ''error'' = Some (JString ''All Backends Failed'')
         \<and> body_field (body R) ''message'' = Some (JString
              ''Unable to connect to any backend server. Check if development server is running.'')
         \<and> body_field (body R) ''backends'' = Some (JArray (map JString backendUrls))
         \<and> body_field (body R) ''lastError'' = Some (JString (lastError_message (Some error)))
         \<and> (\<forall>m. message error = Some m \<and> m \<noteq> []
               \<longrightarrow> body_field (body R) ''lastError'' = Some (JString m))
         \<and> body_field (body R) ''solutions'' = Some (JArray
              [JString ''Start dev server: npm run dev (port 5173)'',
               JString ''Start backend: node server.js (http://localhost:5000)'',
               JString ''Check CORS configuration'',
               JString ''Verify MongoDB connection''])
         \<and> body_field (body R) ''timestamp'' = Some (JString (now e)))
       \<and> attempted (handleApiRequest e request) = map (fullBackendUrl request) backendUrls"
proof -
  have "\<forall>j<length backendUrls. is_Rejected (attempt e request (0 + j) (backendUrls ! j))"
    using assms(1) by simp
  from try_backends_all_failed [OF this, of backendUrls None "[]"]
  have "returned (handleApiRequest e request)
          = Fulfilled (all_backends_failed backendUrls (Some error) (now e))"
    and "attempted (handleApiRequest e request) = map (fullBackendUrl request) backendUrls"
    using assms(2) backendUrls_not_empty by (simp_all add: handleApiRequest_def)
  then show ?thesis
    by (simp add: all_backends_failed_def body_field_def lastError_message_def)
qed

theorem all_failed_is_503_witness:
  "returned (handleApiRequest none_answers api_post)
     = Fulfilled (all_backends_failed backendUrls (Some aborted) timestamp0)
   \<and> status (all_backends_failed backendUrls (Some aborted) timestamp0) = 503
   \<and> body_field (body (all_backends_failed backendUrls (Some aborted) timestamp0)) ''lastError''
       = Some (JString ''The user aborted a request.'')
   \<and> body_field (body (all_backends_failed backendUrls (Some aborted) timestamp0)) ''backends''
       = Some (JArray (map JString (PRIMARY_BACKEND # FALLBACK_BACKENDS)))"
  using all_failed_is_503 [of none_answers api_post aborted]
  by (simp add: backendUrls_def FALLBACK_BACKENDS_def attempt_def backendRequest_def
      api_post_def none_answers_def aborted_def less_Suc_eq Let_def
      all_backends_failed_def body_field_def lastError_message_def)

text \<open>
  C10. In the 503 response \<^verbatim>\<open>lastError\<close> is a non-empty string: it is
  \<^verbatim>\<open>Unknown error\<close> when no error was recorded, or the recorded error has no message or
  an empty one. With an empty candidate list the loop never runs and returns that
  response with no recorded error.
\<close>

theorem lastError_is_never_empty:
  "body_field (body (all_backends_failed bs lastError ts)) ''lastError''
     = Some (JString (lastError_message lastError))
   \<and> lastError_message lastError \<noteq> []
   \<and> lastError_message None = ''Unknown error''
   \<and> (message error = None \<or> message error = Some []
        \<longrightarrow> lastError_message (Some error) = ''Unknown error'')
   \<and> returned (try_backends e request [] 0 [] None [])
        = Fulfilled (all_backends_failed [] None (now e))"
  by (auto simp add: all_backends_failed_def body_field_def lastError_message_def
      split: option.splits)

theorem lastError_is_never_empty_witness:
  "body_field (body (all_backends_failed backendUrls (Some no_message) timestamp0)) ''lastError''
     = Some (JString ''Unknown error'')"
  using lastError_is_never_empty [of backendUrls "Some no_message" timestamp0 no_message]
  by (simp add: no_message_def)

subsection \<open>The derived request\<close>

text \<open>
  \<^verbatim>\<open>startsWith\<close> is the prefix test; the operations of \<^verbatim>\<open>Headers\<close> act on the lookup
  function of the list; copying the entries of a \<^verbatim>\<open>Headers\<close> object keeps every lookup.
\<close>

lemma map_of_Headers_set: "map_of (Headers_set k v h) = (map_of h)(header_name k \<mapsto> v)"
  by (simp add: Headers_set_def update_conv')

lemma map_of_Headers_delete: "map_of (Headers_delete k h) = (map_of h)(header_name k := None)"
  by (simp add: Headers_delete_def delete_conv')

lemma startsWith_iff: "startsWith s p \<longleftrightarrow> (\<exists>t. s = p @ t)"
  by (induction s p rule: startsWith.induct) auto

lemma header_name_Origin: "header_name ''Origin'' = ''origin''"
  by (simp add: header_name_def to_lower_def)

lemma map_of_copied:
  "map_of (fold (\<lambda>(key, v). Headers_set key v) es acc) x =
     (case map_of (rev (map (\<lambda>(key, v). (header_name key, v)) es)) x of
        Some v \<Rightarrow> Some v
      | None \<Rightarrow> map_of acc x)"
proof (induction es arbitrary: acc)
  case Nil
  then show ?case by simp
next
  case (Cons a es)
  obtain key v where a: "a = (key, v)" by (cases a)
  show ?case
    by (auto simp add: a Cons.IH map_of_Headers_set map_add_def split: option.splits)
qed


lemma map_of_rev_distinct: "distinct (map fst xs) \<Longrightarrow> map_of (rev xs) = map_of xs"
proof (induction xs)
  case Nil
  then show ?case by simp
next
  case (Cons a xs)
  then have "fst a \<notin> dom (map_of xs)" by (simp add: dom_map_of_conv_image_fst)
  then have "map_of xs (fst a) = None" by blast
  then show ?case
    using Cons by (cases a) (auto simp add: map_add_def fun_eq_iff split: option.splits)
qed

lemma lower_names_unchanged:
  "list_all (\<lambda>k. header_name k = k) (map fst es) \<Longrightarrow>
   map (\<lambda>(key, v). (header_name key, v)) es = es"
  by (induction es) auto

lemma Headers_get_copied:
  assumes "Headers_entries_ok es"
  shows "Headers_get (fold (\<lambda>(key, v). Headers_set key v) es []) k = Headers_get es k"
proof -
  have "map (\<lambda>(key, v). (header_name key, v)) es = es"
    using assms by (simp add: Headers_entries_ok_def lower_names_unchanged)
  moreover have "map_of (rev es) = map_of es"
    using assms by (simp add: Headers_entries_ok_def map_of_rev_distinct)
  ultimately show ?thesis
    by (simp add: Headers_get_def map_of_copied split: option.splits)
qed

text \<open>
  C6. The headers of the derived request, as the source hands them to
  \<^verbatim>\<open>new Request\<close>: for a candidate whose URL contains \<^verbatim>\<open>app.github.dev\<close> (the
  natural-origin backends) there is no \<^verbatim>\<open>Origin\<close> header; for any other candidate
  \<^verbatim>\<open>Origin\<close> is \<^verbatim>\<open>https://wyerd.net\<close>; every header of another name is as in the
  original request.
\<close>

theorem origin_header_adapted:
  assumes "backendRequest request backendUrl = Inr r"
  shows "(str_includes backendUrl ''app.github.dev''
            \<longrightarrow> Headers_get (br_headers r) ''Origin'' = None)
       \<and> (\<not> str_includes backendUrl ''app.github.dev''
            \<longrightarrow> Headers_get (br_headers r) ''Origin'' = Some ''https://wyerd.net'')
       \<and> (Headers_entries_ok (req_headers request) \<and> header_name k \<noteq> header_name ''Origin''
            \<longrightarrow> Headers_get (br_headers r) k = Headers_get (req_headers request) k)"
proof -
  have r: "br_headers r = requestHeaders request backendUrl"
    using assms by (auto simp add: backendRequest_def Let_def split: if_splits sum.splits)
  have a: "Headers_get (Headers_delete ''Origin'' h) ''Origin'' = None" for h
    by (simp add: Headers_get_def map_of_Headers_delete)
  have b: "Headers_get (Headers_set ''Origin'' v h) ''Origin'' = Some v" for v h
    by (simp add: Headers_get_def map_of_Headers_set)
  have c: "Headers_get (Headers_delete ''Origin'' h) k = Headers_get h k"
    and d: "Headers_get (Headers_set ''Origin'' v h) k = Headers_get h k"
    if "header_name k \<noteq> header_name ''Origin''" for h v
    using that by (simp_all add: Headers_get_def map_of_Headers_delete map_of_Headers_set)
  show ?thesis
    unfolding r requestHeaders_def Let_def
    using a b c d Headers_get_copied [of "req_headers request" k] by auto
qed

theorem origin_header_adapted_witness:
  "Headers_get (requestHeaders api_post PRIMARY_BACKEND) ''Origin'' = None
   \<and> Headers_get (requestHeaders api_post (FALLBACK_BACKENDS ! 1)) ''Origin''
       = Some ''https://wyerd.net''
   \<and> Headers_get (requestHeaders api_post PRIMARY_BACKEND) ''Accept'' = Some ''application/json''"
  using origin_header_adapted [where request = api_post and backendUrl = PRIMARY_BACKEND
          and r = "projr (backendRequest api_post PRIMARY_BACKEND)" and k = "''Accept''"]
        origin_header_adapted [where request = api_post and backendUrl = "FALLBACK_BACKENDS ! 1"
          and r = "projr (backendRequest api_post (FALLBACK_BACKENDS ! 1))" and k = "''Accept''"]
  by (simp add: backendRequest_def api_post_def PRIMARY_BACKEND_def FALLBACK_BACKENDS_def
      Headers_entries_ok_def Headers_get_def header_name_def to_lower_def)

text \<open>
  C8. The derived request of an attempt: its URL is the candidate base followed by the
  original path and query string, its method is the original one, credentials are
  \<^verbatim>\<open>include\<close> and the mode is \<^verbatim>\<open>cors\<close>. It has no body for GET and HEAD, and the
  original body text for every other method (if that text cannot be read, no request
  is derived and the attempt throws). The attempt passes exactly this request to
  \<^verbatim>\<open>fetch\<close>.
\<close>

theorem derived_request_shape:
  "(req_method request = ''GET'' \<or> req_method request = ''HEAD''
      \<longrightarrow> backendRequest request backendUrl =
            Inr \<lparr>br_url = backendUrl @ pathname (req_url request) @ search (req_url request),
                 br_method = req_method request,
                 br_headers = requestHeaders request backendUrl,
                 br_body = None,
                 br_credentials = ''include'',
                 br_mode = ''cors''\<rparr>)
   \<and> (req_method request \<noteq> ''GET'' \<and> req_method request \<noteq> ''HEAD''
        \<and> req_text request = Inr t
      \<longrightarrow> backendRequest request backendUrl =
            Inr \<lparr>br_url = backendUrl @ pathname (req_url request) @ search (req_url request),
                 br_method = req_method request,
                 br_headers = requestHeaders request backendUrl,
                 br_body = Some t,
                 br_credentials = ''include'',
                 br_mode = ''cors''\<rparr>)
   \<and> (req_method request \<noteq> ''GET'' \<and> req_method request \<noteq> ''HEAD''
        \<and> req_text request = Inl error
      \<longrightarrow> backendRequest request backendUrl = Inl error)
   \<and> (\<forall>r. backendRequest request backendUrl = Inr r
      \<longrightarrow> attempt e request i backendUrl =
            (case fetch e i r of
               Inl thrown \<Rightarrow> Rejected thrown
             | Inr resp \<Rightarrow>
                 (case res_text resp of
                    Pending \<Rightarrow> Pending
                  | Rejected thrown \<Rightarrow> Rejected thrown
                  | Fulfilled responseBody \<Rightarrow>
                      (case new_Response e resp responseBody of
                         Inl thrown \<Rightarrow> Rejected thrown
                       | Inr answer \<Rightarrow> Fulfilled answer))))"
  by (auto simp add: backendRequest_def fullBackendUrl_def attempt_def)

theorem derived_request_shape_witness:
  "br_url (projr (backendRequest api_post PRIMARY_BACKEND))
     = PRIMARY_BACKEND @ ''/api/contacts?page=2''
   \<and> br_body (projr (backendRequest api_post PRIMARY_BACKEND)) = Some ''[1]''
   \<and> br_body (projr (backendRequest (api_post\<lparr>req_method := ''GET''\<rparr>) PRIMARY_BACKEND)) = None"
  using derived_request_shape [where request = api_post and t = "''[1]''"
          and backendUrl = PRIMARY_BACKEND]
        derived_request_shape [where request = "api_post\<lparr>req_method := ''GET''\<rparr>"
          and backendUrl = PRIMARY_BACKEND]
  by (simp add: api_post_def)

subsection \<open>The interception boundary\<close>

text \<open>
  C4. The listener answers through the forwarder exactly when the path begins with
  \<^verbatim>\<open>/api/\<close>; any other request is handed to the default \<^verbatim>\<open>fetch\<close> as it came: the
  same request, no derived request, no loop over candidates.
\<close>

theorem forwarding_iff_api_prefix:
  "(startsWith (pathname (req_url request)) ''/api/''
      \<longrightarrow> fetch_listener e request = Respond (returned (handleApiRequest e request)))
   \<and> (\<not> startsWith (pathname (req_url request)) ''/api/''
      \<longrightarrow> fetch_listener e request = DefaultFetch request)
   \<and> ((\<exists>resp. fetch_listener e request = Respond resp)
      \<longleftrightarrow> (\<exists>rest. pathname (req_url request) = ''/api/'' @ rest))"
  using catch_api_settled [OF handleApiRequest_never_rejects [of e request]]
  by (auto simp add: fetch_listener_def fetch_listener_with_def startsWith_iff)

theorem forwarding_iff_api_prefix_witness:
  "fetch_listener second_answers asset_get = DefaultFetch asset_get
   \<and> fetch_listener second_answers api_post
       = Respond (returned (handleApiRequest second_answers api_post))"
  using forwarding_iff_api_prefix [where request = asset_get and e = second_answers]
        forwarding_iff_api_prefix [where request = api_post and e = second_answers]
  by (simp add: asset_get_def api_post_def)




subsection \<open>Activation\<close>

text \<open>
  C9, as the code has it. When \<^verbatim>\<open>caches.keys()\<close> resolves, a deletion is issued for
  every stored cache whose name differs from \<open>CACHE_NAME\<close> and for no other, whatever
  the outcome of any of them; afterwards the caches left are the current one and those
  whose deletion did not succeed. \<^verbatim>\<open>clients.claim()\<close> is called, and the promise given to
  \<^verbatim>\<open>event.waitUntil\<close> fulfilled, if and only if no deletion was rejected.
\<close>

theorem activation_deletes_old_caches:
  assumes "keys_rejects caches = None"
  shows "deletions (activate caches) = filter (\<lambda>n. n \<noteq> CACHE_NAME) (stored caches)
       \<and> remaining (activate caches)
           = filter (\<lambda>n. n = CACHE_NAME \<or> delete caches n \<noteq> Inr True) (stored caches)
       \<and> (claimed (activate caches)
            \<longleftrightarrow> (\<forall>n\<in>set (stored caches). n \<noteq> CACHE_NAME \<longrightarrow> \<not> isl (delete caches n)))
       \<and> fulfilled (activate caches) = claimed (activate caches)"
proof -
  have k: "keys caches = Inr (stored caches)"
    using assms by (simp add: keys_def)
  have "remaining (activate caches)
          = filter (\<lambda>n. n = CACHE_NAME \<or> delete caches n \<noteq> Inr True) (stored caches)"
    by (auto simp add: activate_def k Let_def intro: filter_cong)
  moreover have "claimed (activate caches)
            \<longleftrightarrow> (\<forall>n\<in>set (stored caches). n \<noteq> CACHE_NAME \<longrightarrow> \<not> isl (delete caches n))"
    by (auto simp add: activate_def k Let_def list_all_iff)
  ultimately show ?thesis
    by (simp add: activate_def k Let_def)
qed

theorem activation_deletes_old_caches_witness:
  "deletions (activate all_deletions_succeed) = [''wyerd-crm-v1'', ''old-assets'']
   \<and> remaining (activate all_deletions_succeed) = [''wyerd-crm-v2'']
   \<and> claimed (activate all_deletions_succeed)"
  using activation_deletes_old_caches [of all_deletions_succeed]
  by (simp add: all_deletions_succeed_def CACHE_NAME_def)

text \<open>
  C9 as stated fails: with one deletion rejected the other old cache is still deleted,
  but \<^verbatim>\<open>clients.claim()\<close> is not called.
\<close>

theorem rejected_deletion_blocks_claim:
  "deletions (activate one_deletion_rejects) = [''wyerd-crm-v1'', ''old-assets'']
   \<and> delete one_deletion_rejects ''wyerd-crm-v1'' = Inl storage_error
   \<and> remaining (activate one_deletion_rejects) = [''wyerd-crm-v1'', ''wyerd-crm-v2'']
   \<and> \<not> claimed (activate one_deletion_rejects)"
  by (simp add: activate_def keys_def one_deletion_rejects_def CACHE_NAME_def)

end
